theory Spec2Isabelle
  imports Main "HOL-Library.Word" "HOL-Library.Multiset"
begin

section \<open>The HapticArtFHE contract\<close>

text \<open>
  A shallow embedding of the Solidity contract \<^verbatim>\<open>HapticArtFHE\<close>. Storage is a record that
  every function takes and returns; a \<^verbatim>\<open>mapping\<close> is a total function whose unwritten
  entries hold the zero value of the value type, as in Solidity; a \<^verbatim>\<open>require\<close> that fails, a
  checked-arithmetic panic and a reverting library call are the \<open>Inl\<close> results; emitted events
  are returned as a list next to the new storage.
\<close>

subsection \<open>Value types\<close>

type_synonym uint256 = "256 word"
type_synonym uint32 = "32 word"
type_synonym address = "160 word"
type_synonym bytes = "8 word list"

text \<open>
  Modelled from the spec: the \<^verbatim>\<open>euint32\<close> ciphertext handle of the external FHE library
  (\<^verbatim>\<open>@fhevm/solidity\<close>), which is not part of the repository. A handle is either the zero
  handle, the value of an unwritten storage slot, or an opaque reference to an encrypted
  32-bit value; the model identifies such a reference with the value it encrypts.
\<close>

datatype euint32 = Uninitialized | Enc uint32

text \<open>
  Modelled from the spec: \<^verbatim>\<open>FHE.isInitialized\<close>, the presence flag of a handle. It rejects
  the zero handle only.
\<close>

fun FHE_isInitialized :: "euint32 \<Rightarrow> bool" where
  "FHE_isInitialized Uninitialized = False"
| "FHE_isInitialized (Enc v) = True"

text \<open>
  Modelled from the spec: the cleartext that the decryption oracle returns for a handle. The
  zero handle counts as an encryption of 0.
\<close>

fun FHE_plaintext :: "euint32 \<Rightarrow> uint32" where
  "FHE_plaintext Uninitialized = 0"
| "FHE_plaintext (Enc v) = v"

text \<open>
  Modelled from the spec: \<^verbatim>\<open>FHE.add\<close>, homomorphic addition. It is exact on the plaintexts:
  the result is a handle of the sum of the two plaintexts, in \<^verbatim>\<open>uint32\<close> arithmetic.
\<close>

definition FHE_add :: "euint32 \<Rightarrow> euint32 \<Rightarrow> euint32" where
  "FHE_add a b = Enc (FHE_plaintext a + FHE_plaintext b)"

text \<open>
  The other external routines the contract calls: \<^verbatim>\<open>FHE.checkSignatures\<close> (it reverts unless
  the proof authenticates the cleartexts for the request), \<^verbatim>\<open>abi.decode\<close> at the two types
  the callbacks use (it reverts on a payload that does not decode), and \<^verbatim>\<open>keccak256\<close> of a
  packed string. They are parameters of the model.
\<close>

record externals =
  checkSignatures :: "uint256 \<Rightarrow> bytes \<Rightarrow> bytes \<Rightarrow> bool"
  abi_decode_strings :: "bytes \<Rightarrow> string list option"
  abi_decode_uint32 :: "bytes \<Rightarrow> uint32 option"
  keccak256 :: "string \<Rightarrow> uint256"

text \<open>
  What the execution environment supplies to one call: \<^verbatim>\<open>msg.sender\<close>, \<^verbatim>\<open>block.timestamp\<close>,
  and the request id that \<^verbatim>\<open>FHE.requestDecryption\<close> returns if the call issues a request.
\<close>

record environment =
  msg_sender :: address
  block_timestamp :: uint256
  requestDecryption :: uint256

subsection \<open>Storage\<close>

record EncryptedSample =
  id_sample :: uint256
  encryptedIntensity :: euint32
  encryptedFrequency :: euint32
  encryptedContactType :: euint32
  timestamp :: uint256
  submitter :: address

record Transformation =
  shapeDescriptor :: string
  textureDescriptor :: string
  revealed :: bool

record storage =
  sampleCount :: uint256
  encryptedSamples :: "uint256 \<Rightarrow> EncryptedSample"
  transformations :: "uint256 \<Rightarrow> Transformation"
  requestToSampleId :: "uint256 \<Rightarrow> uint256"
  encryptedMetric :: "string \<Rightarrow> euint32"
  metricKeys :: "string list"

definition zero_sample :: EncryptedSample where
  "zero_sample = \<lparr>id_sample = 0, encryptedIntensity = Uninitialized,
     encryptedFrequency = Uninitialized, encryptedContactType = Uninitialized,
     timestamp = 0, submitter = 0\<rparr>"

definition zero_transformation :: Transformation where
  "zero_transformation = \<lparr>shapeDescriptor = [], textureDescriptor = [], revealed = False\<rparr>"

text \<open>The storage of the freshly deployed contract: every slot is zero.\<close>

definition deployed :: storage where
  "deployed = \<lparr>sampleCount = 0, encryptedSamples = (\<lambda>_. zero_sample),
     transformations = (\<lambda>_. zero_transformation), requestToSampleId = (\<lambda>_. 0),
     encryptedMetric = (\<lambda>_. Uninitialized), metricKeys = []\<rparr>"

datatype event =
    SampleSubmitted uint256 address uint256
  | TransformationRequested uint256 uint256
  | TransformationRevealed uint256
  | MetricDecrypted uint256 uint32

datatype error =
    Revert string
  | Panic_overflow
  | Signature_check_failed
  | Decode_failed

type_synonym 'a result = "error + 'a"

subsection \<open>The functions of the contract\<close>

text \<open>The modifier \<^verbatim>\<open>onlySubmitter\<close>: its body is the placeholder \<^verbatim>\<open>_;\<close> alone.\<close>

definition onlySubmitter :: "address \<Rightarrow> uint256 \<Rightarrow> 'a \<Rightarrow> 'a" where
  "onlySubmitter sender sampleId body = body"

text \<open>\<^verbatim>\<open>sampleCount += 1\<close> is checked arithmetic (Solidity 0.8): it panics at the maximum.\<close>

definition submitEncryptedSample ::
  "storage \<Rightarrow> environment \<Rightarrow> euint32 \<Rightarrow> euint32 \<Rightarrow> euint32 \<Rightarrow> (storage \<times> event list) result" where
  "submitEncryptedSample s ctx encIntensity encFrequency encContactType =
     (if sampleCount s = - 1 then Inl Panic_overflow
      else
        let newId = sampleCount s + 1 in
        Inr (s\<lparr>sampleCount := newId,
               encryptedSamples := (encryptedSamples s)(newId :=
                 \<lparr>id_sample = newId, encryptedIntensity = encIntensity,
                  encryptedFrequency = encFrequency, encryptedContactType = encContactType,
                  timestamp = block_timestamp ctx, submitter = msg_sender ctx\<rparr>),
               transformations := (transformations s)(newId :=
                 \<lparr>shapeDescriptor = [], textureDescriptor = [], revealed = False\<rparr>)\<rparr>,
             [SampleSubmitted newId (msg_sender ctx) (block_timestamp ctx)]))"

definition requestTransformation ::
  "storage \<Rightarrow> environment \<Rightarrow> uint256 \<Rightarrow> (storage \<times> event list) result" where
  "requestTransformation s ctx sampleId =
     onlySubmitter (msg_sender ctx) sampleId
       (let smp = encryptedSamples s sampleId in
        if id_sample smp = 0 then Inl (Revert ''Invalid sample'')
        else if revealed (transformations s sampleId) then Inl (Revert ''Already revealed'')
        else
          let reqId = requestDecryption ctx in
          Inr (s\<lparr>requestToSampleId := (requestToSampleId s)(reqId := sampleId)\<rparr>,
               [TransformationRequested sampleId reqId]))"

definition handleDecryption ::
  "externals \<Rightarrow> storage \<Rightarrow> uint256 \<Rightarrow> bytes \<Rightarrow> bytes \<Rightarrow> (storage \<times> event list) result" where
  "handleDecryption ext s requestId cleartexts proofData =
     (let sampleId = requestToSampleId s requestId in
      if sampleId = 0 then Inl (Revert ''Unknown request'')
      else
        let t = transformations s sampleId in
        if revealed t then Inl (Revert ''Already processed'')
        else if \<not> checkSignatures ext requestId cleartexts proofData then Inl Signature_check_failed
        else
          case abi_decode_strings ext cleartexts of
            None \<Rightarrow> Inl Decode_failed
          | Some results \<Rightarrow>
              Inr (s\<lparr>transformations := (transformations s)(sampleId :=
                       t\<lparr>shapeDescriptor := (if length results > 0 then results ! 0 else []),
                         textureDescriptor := (if length results > 1 then results ! 1 else []),
                         revealed := True\<rparr>)\<rparr>,
                   [TransformationRevealed sampleId]))"

definition getTransformation :: "storage \<Rightarrow> uint256 \<Rightarrow> (string \<times> string \<times> bool) result" where
  "getTransformation s sampleId =
     (let t = transformations s sampleId in
      Inr (shapeDescriptor t, textureDescriptor t, revealed t))"

definition storeEncryptedMetric ::
  "storage \<Rightarrow> string \<Rightarrow> euint32 \<Rightarrow> (storage \<times> event list) result" where
  "storeEncryptedMetric s key val =
     (if \<not> FHE_isInitialized (encryptedMetric s key)
      then Inr (s\<lparr>encryptedMetric := (encryptedMetric s)(key := val),
                  metricKeys := metricKeys s @ [key]\<rparr>, [])
      else Inr (s\<lparr>encryptedMetric :=
                    (encryptedMetric s)(key := FHE_add (encryptedMetric s key) val)\<rparr>, []))"

definition requestMetricDecryption ::
  "externals \<Rightarrow> storage \<Rightarrow> environment \<Rightarrow> string \<Rightarrow> (storage \<times> event list) result" where
  "requestMetricDecryption ext s ctx key =
     (let val = encryptedMetric s key in
      if \<not> FHE_isInitialized val then Inl (Revert ''Metric not found'')
      else
        let reqId = requestDecryption ctx in
        Inr (s\<lparr>requestToSampleId := (requestToSampleId s)(reqId := keccak256 ext key)\<rparr>, []))"

definition handleMetricDecryption ::
  "externals \<Rightarrow> storage \<Rightarrow> uint256 \<Rightarrow> bytes \<Rightarrow> bytes \<Rightarrow> (storage \<times> event list) result" where
  "handleMetricDecryption ext s requestId cleartexts proofData =
     (let pseudoId = requestToSampleId s requestId in
      if pseudoId = 0 then Inl (Revert ''Unknown request'')
      else if \<not> checkSignatures ext requestId cleartexts proofData then Inl Signature_check_failed
      else
        case abi_decode_uint32 ext cleartexts of
          None \<Rightarrow> Inl Decode_failed
        | Some decryptedValue \<Rightarrow> Inr (s, [MetricDecrypted pseudoId decryptedValue]))"

definition getSampleSubmitter :: "storage \<Rightarrow> uint256 \<Rightarrow> address result" where
  "getSampleSubmitter s sampleId = (let smp = encryptedSamples s sampleId in Inr (submitter smp))"

definition resetTransformationReveal ::
  "storage \<Rightarrow> uint256 \<Rightarrow> (storage \<times> event list) result" where
  "resetTransformationReveal s sampleId =
     Inr (s\<lparr>transformations := (transformations s)(sampleId :=
              (transformations s sampleId)\<lparr>revealed := False\<rparr>)\<rparr>, [])"

definition listMetricKeys :: "storage \<Rightarrow> string list result" where
  "listMetricKeys s = Inr (metricKeys s)"

definition getEncryptedSampleInfo ::
  "storage \<Rightarrow> uint256 \<Rightarrow> (uint256 \<times> uint256 \<times> address \<times> bool) result" where
  "getEncryptedSampleInfo s sampleId =
     (let smp = encryptedSamples s sampleId; t = transformations s sampleId in
      Inr (id_sample smp, timestamp smp, submitter smp, revealed t))"

subsection \<open>Transactions\<close>

text \<open>
  The state-changing entry points, with \<^verbatim>\<open>receive\<close> and \<^verbatim>\<open>fallback\<close>, whose bodies are
  empty (the ether balance is not part of the model). A transaction that reverts leaves the
  storage as it was and emits nothing; the hosting chain runs transactions one at a time.
\<close>

datatype call =
    SubmitEncryptedSample euint32 euint32 euint32
  | RequestTransformation uint256
  | HandleDecryption uint256 bytes bytes
  | StoreEncryptedMetric string euint32
  | RequestMetricDecryption string
  | HandleMetricDecryption uint256 bytes bytes
  | ResetTransformationReveal uint256
  | Receive
  | Fallback bytes

fun dispatch :: "externals \<Rightarrow> storage \<Rightarrow> environment \<Rightarrow> call \<Rightarrow> (storage \<times> event list) result" where
  "dispatch ext s ctx (SubmitEncryptedSample a b c) = submitEncryptedSample s ctx a b c"
| "dispatch ext s ctx (RequestTransformation sampleId) = requestTransformation s ctx sampleId"
| "dispatch ext s ctx (HandleDecryption requestId cleartexts proofData) =
     handleDecryption ext s requestId cleartexts proofData"
| "dispatch ext s ctx (StoreEncryptedMetric key val) = storeEncryptedMetric s key val"
| "dispatch ext s ctx (RequestMetricDecryption key) = requestMetricDecryption ext s ctx key"
| "dispatch ext s ctx (HandleMetricDecryption requestId cleartexts proofData) =
     handleMetricDecryption ext s requestId cleartexts proofData"
| "dispatch ext s ctx (ResetTransformationReveal sampleId) = resetTransformationReveal s sampleId"
| "dispatch ext s ctx Receive = Inr (s, [])"
| "dispatch ext s ctx (Fallback calldata) = Inr (s, [])"

definition transact :: "externals \<Rightarrow> storage \<Rightarrow> environment \<times> call \<Rightarrow> storage \<times> event list" where
  "transact ext s tx =
     (case dispatch ext s (fst tx) (snd tx) of
        Inl e \<Rightarrow> (s, [])
      | Inr r \<Rightarrow> r)"

fun run :: "externals \<Rightarrow> storage \<Rightarrow> (environment \<times> call) list \<Rightarrow> storage \<times> event list" where
  "run ext s [] = (s, [])"
| "run ext s (tx # txs) =
     (let (s1, evs1) = transact ext s tx; (s2, evs2) = run ext s1 txs in (s2, evs1 @ evs2))"


subsection \<open>Observations on a run\<close>

fun is_submit :: "call \<Rightarrow> bool" where
  "is_submit (SubmitEncryptedSample a b c) = True"
| "is_submit _ = False"

text \<open>The ids assigned so far, read off the \<^verbatim>\<open>SampleSubmitted\<close> events in order.\<close>

fun submitted_ids :: "event list \<Rightarrow> uint256 list" where
  "submitted_ids [] = []"
| "submitted_ids (SampleSubmitted i who ts # evs) = i # submitted_ids evs"
| "submitted_ids (_ # evs) = submitted_ids evs"

definition max_uint256 :: nat where
  "max_uint256 = 2 ^ 256 - 1"

definition counted :: "storage \<Rightarrow> event list \<Rightarrow> bool" where
  "counted s evs \<longleftrightarrow> map unat (submitted_ids evs) = [1..<Suc (unat (sampleCount s))]"

text \<open>
  The sample registry agrees with the ids assigned so far: a slot holds its own id exactly when
  that id was assigned, and slot 0 of both mappings is never written.
\<close>

definition registered :: "storage \<Rightarrow> event list \<Rightarrow> bool" where
  "registered s evs \<longleftrightarrow>
     (\<forall>i. id_sample (encryptedSamples s i) = (if i \<in> set (submitted_ids evs) then i else 0))
     \<and> 0 \<notin> set (submitted_ids evs)
     \<and> encryptedSamples s 0 = zero_sample
     \<and> transformations s 0 = zero_transformation"

text \<open>The calls that obtain a request id from \<^verbatim>\<open>FHE.requestDecryption\<close>.\<close>

fun issues_request :: "call \<Rightarrow> bool" where
  "issues_request (RequestTransformation sampleId) = True"
| "issues_request (RequestMetricDecryption key) = True"
| "issues_request _ = False"

text \<open>
  The result of a submission with the submitter replaced: in the sample stored last and in the
  event. It relates the results of the same submission made by two callers.
\<close>

fun event_with_submitter :: "address \<Rightarrow> event \<Rightarrow> event" where
  "event_with_submitter a (SampleSubmitted i who ts) = SampleSubmitted i a ts"
| "event_with_submitter a ev = ev"

definition with_submitter :: "address \<Rightarrow> storage \<times> event list \<Rightarrow> storage \<times> event list" where
  "with_submitter a r =
     ((fst r)\<lparr>encryptedSamples := (encryptedSamples (fst r))(sampleCount (fst r) :=
         (encryptedSamples (fst r) (sampleCount (fst r)))\<lparr>submitter := a\<rparr>)\<rparr>,
      map (event_with_submitter a) (snd r))"

text \<open>A sequence of calls \<^verbatim>\<open>storeEncryptedMetric(key, v)\<close>, one for each value of the list.\<close>

fun accumulate :: "storage \<Rightarrow> string \<Rightarrow> euint32 list \<Rightarrow> storage" where
  "accumulate s key [] = s"
| "accumulate s key (v # vs) =
     (case storeEncryptedMetric s key v of
        Inl e \<Rightarrow> accumulate s key vs
      | Inr r \<Rightarrow> accumulate (fst r) key vs)"

subsection \<open>Sample inputs\<close>

text \<open>
  A small instance of the external routines and a few transaction sequences, on which the
  model is run: a proof is valid when it is the single byte 1, every non-empty payload decodes
  to the two strings "sphere" and "soft", a one-byte payload decodes to that number.
\<close>

definition example_externals :: externals where
  "example_externals =
     \<lparr>checkSignatures = (\<lambda>requestId cleartexts proofData. proofData = [1]),
      abi_decode_strings =
        (\<lambda>cleartexts. if cleartexts = [] then None else Some [''sphere'', ''soft'']),
      abi_decode_uint32 = (\<lambda>cleartexts. case cleartexts of [v] \<Rightarrow> Some (ucast v) | _ \<Rightarrow> None),
      keccak256 = (\<lambda>key. 1000 + of_nat (length key))\<rparr>"

definition example_ctx :: "address \<Rightarrow> uint256 \<Rightarrow> environment" where
  "example_ctx sender reqId =
     \<lparr>msg_sender = sender, block_timestamp = 100, requestDecryption = reqId\<rparr>"

definition example_submitted :: "(environment \<times> call) list" where
  "example_submitted = [(example_ctx 10 0, SubmitEncryptedSample (Enc 1) (Enc 2) (Enc 3))]"

definition example_requested :: "(environment \<times> call) list" where
  "example_requested = example_submitted @ [(example_ctx 10 7, RequestTransformation 1)]"

definition example_revealed :: "(environment \<times> call) list" where
  "example_revealed = example_requested @ [(example_ctx 11 0, HandleDecryption 7 [0] [1])]"

definition example_stored :: "(environment \<times> call) list" where
  "example_stored =
     [(example_ctx 10 0, StoreEncryptedMetric ''heat'' (Enc 5)),
      (example_ctx 10 0, StoreEncryptedMetric ''heat'' (Enc 7))]"

definition example_metric :: "(environment \<times> call) list" where
  "example_metric = example_stored @ [(example_ctx 10 9, RequestMetricDecryption ''heat'')]"

section \<open>Properties\<close>

lemmas example_defs = example_externals_def example_ctx_def example_submitted_def
  example_requested_def example_revealed_def example_stored_def example_metric_def deployed_def
  zero_sample_def zero_transformation_def

lemmas contract_defs = transact_def submitEncryptedSample_def requestTransformation_def
  onlySubmitter_def handleDecryption_def storeEncryptedMetric_def requestMetricDecryption_def
  handleMetricDecryption_def resetTransformationReveal_def FHE_add_def Let_def

lemma example_requested_ledger:
  "requestToSampleId (fst (run example_externals deployed example_requested)) 7 = 1"
  by (simp add: example_defs contract_defs)

lemma example_requested_unrevealed:
  "\<not> revealed (transformations (fst (run example_externals deployed example_requested)) 1)"
  by (simp add: example_defs contract_defs)

lemma example_revealed_ledger:
  "requestToSampleId (fst (run example_externals deployed example_revealed)) 7 = 1"
  by (simp add: example_defs contract_defs)

lemma example_revealed_transformation:
  "transformations (fst (run example_externals deployed example_revealed)) 1 =
     \<lparr>shapeDescriptor = ''sphere'', textureDescriptor = ''soft'', revealed = True\<rparr>"
  by (simp add: example_defs contract_defs)

subsection \<open>Callbacks that are refused\<close>

text \<open>
  C2. A call of \<^verbatim>\<open>handleDecryption\<close> with a request id that the ledger does not hold (its
  entry is the zero value of the mapping) reverts with "Unknown request", and the transaction
  leaves the whole storage as it was and emits nothing.
\<close>

theorem handleDecryption_unknown_request:
  assumes "requestToSampleId s requestId = 0"
  shows "handleDecryption ext s requestId cleartexts proofData = Inl (Revert ''Unknown request'')
       \<and> transact ext s (ctx, HandleDecryption requestId cleartexts proofData) = (s, [])"
  using assms by (simp add: handleDecryption_def transact_def)

theorem handleDecryption_unknown_request_witness:
  "requestToSampleId (fst (run example_externals deployed example_requested)) 8 = 0
   \<and> handleDecryption example_externals (fst (run example_externals deployed example_requested))
        8 [0] [1] = Inl (Revert ''Unknown request'')
   \<and> requestToSampleId (fst (run example_externals deployed example_requested)) 7 = 1"
proof -
  have h: "requestToSampleId (fst (run example_externals deployed example_requested)) 8 = 0"
    by (simp add: example_defs contract_defs)
  from handleDecryption_unknown_request [OF h] h example_requested_ledger
  show ?thesis by simp
qed

text \<open>
  C3. When the request id maps to a sample whose transformation is already revealed,
  \<^verbatim>\<open>handleDecryption\<close> reverts with "Already processed" (the contract's message for a
  duplicate reveal in the callback); the descriptors and every other part of the storage stay
  as they were.
\<close>

theorem handleDecryption_already_revealed:
  assumes "requestToSampleId s requestId \<noteq> 0"
    and "revealed (transformations s (requestToSampleId s requestId))"
  shows "handleDecryption ext s requestId cleartexts proofData = Inl (Revert ''Already processed'')
       \<and> transact ext s (ctx, HandleDecryption requestId cleartexts proofData) = (s, [])"
  using assms by (simp add: handleDecryption_def transact_def)

theorem handleDecryption_already_revealed_witness:
  "requestToSampleId (fst (run example_externals deployed example_revealed)) 7 \<noteq> 0
   \<and> revealed (transformations (fst (run example_externals deployed example_revealed))
        (requestToSampleId (fst (run example_externals deployed example_revealed)) 7))
   \<and> handleDecryption example_externals (fst (run example_externals deployed example_revealed))
        7 [5] [1] = Inl (Revert ''Already processed'')
   \<and> getTransformation (fst (run example_externals deployed example_revealed)) 1 =
        Inr (''sphere'', ''soft'', True)"
proof -
  let ?s = "fst (run example_externals deployed example_revealed)"
  have h1: "requestToSampleId ?s 7 \<noteq> 0"
    by (simp add: example_revealed_ledger)
  have h2: "revealed (transformations ?s (requestToSampleId ?s 7))"
    by (simp add: example_revealed_ledger example_revealed_transformation)
  have g: "getTransformation ?s 1 = Inr (''sphere'', ''soft'', True)"
    by (simp add: getTransformation_def example_revealed_transformation)
  from handleDecryption_already_revealed [OF h1 h2] h1 h2 g show ?thesis by simp
qed

text \<open>
  C4. When \<^verbatim>\<open>FHE.checkSignatures\<close> rejects the proof, both callbacks revert, whatever the
  payload would decode to: the result is the error of the first check that fails (the two
  \<^verbatim>\<open>require\<close>s come before the signature check), and the transaction changes nothing in the
  storage and emits nothing.
\<close>

theorem signature_failure_is_fail_closed:
  assumes "\<not> checkSignatures ext requestId cleartexts proofData"
  shows "handleDecryption ext s requestId cleartexts proofData =
           Inl (if requestToSampleId s requestId = 0 then Revert ''Unknown request''
                else if revealed (transformations s (requestToSampleId s requestId))
                then Revert ''Already processed'' else Signature_check_failed)
       \<and> handleMetricDecryption ext s requestId cleartexts proofData =
           Inl (if requestToSampleId s requestId = 0 then Revert ''Unknown request''
                else Signature_check_failed)
       \<and> transact ext s (ctx, HandleDecryption requestId cleartexts proofData) = (s, [])
       \<and> transact ext s (ctx, HandleMetricDecryption requestId cleartexts proofData) = (s, [])"
  using assms by (simp add: handleDecryption_def handleMetricDecryption_def transact_def)

theorem signature_failure_is_fail_closed_witness:
  "\<not> checkSignatures example_externals 7 [12] [2]
   \<and> abi_decode_strings example_externals [12] = Some [''sphere'', ''soft'']
   \<and> abi_decode_uint32 example_externals [12] = Some 12
   \<and> handleDecryption example_externals (fst (run example_externals deployed example_requested))
        7 [12] [2] = Inl Signature_check_failed
   \<and> handleMetricDecryption example_externals
        (fst (run example_externals deployed example_requested)) 7 [12] [2] =
        Inl Signature_check_failed
   \<and> transact example_externals (fst (run example_externals deployed example_requested))
        (example_ctx 11 0, HandleDecryption 7 [12] [2]) =
        (fst (run example_externals deployed example_requested), [])"
proof -
  let ?s = "fst (run example_externals deployed example_requested)"
  have h: "\<not> checkSignatures example_externals 7 [12] [2]"
    by (simp add: example_externals_def)
  have d: "abi_decode_strings example_externals [12] = Some [''sphere'', ''soft'']"
     "abi_decode_uint32 example_externals [12] = Some 12"
    by (simp_all add: example_externals_def)
  from signature_failure_is_fail_closed [OF h, of ?s "example_ctx 11 0"] h d
    example_requested_ledger example_requested_unrevealed
  show ?thesis by simp
qed

subsection \<open>Runs of transactions\<close>

lemma submitted_ids_append: "submitted_ids (xs @ ys) = submitted_ids xs @ submitted_ids ys"
  by (induction xs rule: submitted_ids.induct) simp_all

text \<open>A property of storage and event log that every transaction preserves holds after a run.\<close>

lemma run_invariant:
  assumes step:
    "\<And>s evs tx. P s evs \<Longrightarrow> P (fst (transact ext s tx)) (evs @ snd (transact ext s tx))"
  shows "P s evs \<Longrightarrow> P (fst (run ext s txs)) (evs @ snd (run ext s txs))"
proof (induction txs arbitrary: s evs)
  case Nil
  then show ?case by simp
next
  case (Cons tx txs)
  from step [OF Cons.prems, of tx]
  have "P (fst (transact ext s tx)) (evs @ snd (transact ext s tx))" .
  from Cons.IH [OF this] show ?case
    by (simp add: split_beta)
qed

lemma unat_max_u256: "unat (- 1 :: uint256) = max_uint256"
  by (simp add: unsigned_minus_1_eq_mask mask_eq_exp_minus_1 max_uint256_def)

lemma unat_succ_u256: "c \<noteq> - 1 \<Longrightarrow> unat (c + 1 :: uint256) = Suc (unat c)"
  using unatSuc [of c] by (simp add: add.commute add_eq_0_iff)

lemma sampleCount_transact:
  "sampleCount (fst (transact ext s (ctx, c))) =
     (if is_submit c \<and> sampleCount s \<noteq> - 1 then sampleCount s + 1 else sampleCount s)"
  by (cases c) (simp_all add: contract_defs split: option.splits)

lemma submitted_ids_transact:
  "submitted_ids (snd (transact ext s (ctx, c))) =
     (if is_submit c \<and> sampleCount s \<noteq> - 1 then [sampleCount s + 1] else [])"
  by (cases c) (simp_all add: contract_defs split: option.splits)

lemma counted_step:
  "counted s evs \<Longrightarrow> counted (fst (transact ext s tx)) (evs @ snd (transact ext s tx))"
  by (cases tx) (simp add: counted_def submitted_ids_append sampleCount_transact
      submitted_ids_transact unat_succ_u256)

lemma counted_run: "counted (fst (run ext deployed txs)) (snd (run ext deployed txs))"
proof -
  have "counted deployed []" by (simp add: counted_def deployed_def)
  from run_invariant [of counted ext, OF counted_step this] show ?thesis by simp
qed

lemma sampleCount_run:
  "unat (sampleCount (fst (run ext s txs))) =
     min (unat (sampleCount s) + length (filter is_submit (map snd txs))) max_uint256"
proof (induction txs arbitrary: s)
  case Nil
  have "unat (sampleCount s) \<le> max_uint256"
    using unsigned_less [of "sampleCount s", where ?'a = nat] by (simp add: max_uint256_def)
  then show ?case by simp
next
  case (Cons tx txs)
  obtain ctx c where tx: "tx = (ctx, c)" by (cases tx)
  show ?case
    by (simp add: tx split_beta Cons.IH sampleCount_transact unat_succ_u256 unat_max_u256)
qed

subsection \<open>The registry after a run\<close>

lemma succ_neq_0_u256: "c \<noteq> - 1 \<Longrightarrow> c + 1 \<noteq> (0 :: uint256)"
  by (simp add: add_eq_0_iff2)

lemma registered_step:
  assumes "registered s evs"
  shows "registered (fst (transact ext s tx)) (evs @ snd (transact ext s tx))"
proof -
  obtain ctx c where tx: "tx = (ctx, c)" by (cases tx)
  show ?thesis
  proof (cases c)
    case (SubmitEncryptedSample a b d)
    with assms tx show ?thesis
      by (auto simp: registered_def submitted_ids_append contract_defs succ_neq_0_u256)
  next
    case (HandleDecryption r cl p)
    with assms tx show ?thesis
      by (auto simp: registered_def submitted_ids_append contract_defs split: option.splits)
  next
    case (ResetTransformationReveal i)
    with assms tx show ?thesis
      by (auto simp: registered_def submitted_ids_append contract_defs zero_transformation_def)
  qed (use assms tx in \<open>auto simp: registered_def submitted_ids_append contract_defs
         split: option.splits\<close>)
qed

lemma registered_run: "registered (fst (run ext deployed txs)) (snd (run ext deployed txs))"
proof -
  have "registered deployed []"
    by (simp add: registered_def deployed_def zero_sample_def)
  from run_invariant [of registered ext, OF registered_step this] show ?thesis by simp
qed

lemma example_requested_run:
  "snd (run example_externals deployed example_requested) =
     [SampleSubmitted 1 10 100, TransformationRequested 1 7]"
  by (simp add: example_defs contract_defs)

lemma example_revealed_run:
  "snd (run example_externals deployed example_revealed) =
     [SampleSubmitted 1 10 100, TransformationRequested 1 7, TransformationRevealed 1]"
  by (simp add: example_defs contract_defs)

subsection \<open>Sample ids\<close>

lemma assigned_iff:
  assumes "map unat ids = [1..<Suc k]"
  shows "(i :: uint256) \<in> set ids \<longleftrightarrow> 1 \<le> unat i \<and> unat i \<le> k"
proof -
  have "i \<in> set ids \<longleftrightarrow> unat i \<in> unat ` set ids"
    by (simp add: inj_image_mem_iff)
  also have "unat ` set ids = set (map unat ids)" by simp
  also have "\<dots> = {1..<Suc k}" by (simp only: assms set_upt)
  finally show ?thesis by auto
qed

text \<open>
  C1. Start from the deployed contract and run any sequence of transactions (submissions,
  possibly mixed with the other calls). The ids assigned by \<^verbatim>\<open>submitEncryptedSample\<close>, in
  the order of assignment, are exactly 1, 2, ..., k for the number k of ids assigned: they
  start at 1, increase strictly, have no gap and none occurs twice. Every submission is
  assigned an id, up to the point where the counter would overflow (k is the number of
  submissions, capped at the largest \<^verbatim>\<open>uint256\<close>), and \<^verbatim>\<open>sampleCount\<close> is the last id.
  These ids are the ids of the stored samples: slot \<open>i\<close> of \<^verbatim>\<open>encryptedSamples\<close> holds a
  sample with id \<open>i\<close> for each \<open>i\<close> from 1 to k, and the id field of every other slot is 0.
  A single call, in any state, either panics because the counter is at its maximum, or stores
  the sample under the id \<^verbatim>\<open>sampleCount + 1\<close>, makes that the new counter and reports it in
  the event.
\<close>

theorem sample_ids_consecutive_from_one:
  "map unat (submitted_ids (snd (run ext deployed txs))) =
     [1..<Suc (length (submitted_ids (snd (run ext deployed txs))))]
   \<and> length (submitted_ids (snd (run ext deployed txs))) =
       min (length (filter is_submit (map snd txs))) max_uint256
   \<and> unat (sampleCount (fst (run ext deployed txs))) =
       length (submitted_ids (snd (run ext deployed txs)))
   \<and> distinct (submitted_ids (snd (run ext deployed txs)))
   \<and> id_sample (encryptedSamples (fst (run ext deployed txs)) i) =
       (if 1 \<le> unat i \<and> unat i \<le> length (submitted_ids (snd (run ext deployed txs)))
        then i else 0)
   \<and> ((sampleCount s = - 1 \<and> submitEncryptedSample s ctx a b c = Inl Panic_overflow)
      \<or> (\<exists>sa. submitEncryptedSample s ctx a b c =
                 Inr (sa, [SampleSubmitted (sampleCount s + 1) (msg_sender ctx)
                             (block_timestamp ctx)])
             \<and> sampleCount sa = sampleCount s + 1
             \<and> id_sample (encryptedSamples sa (sampleCount s + 1)) = sampleCount s + 1))"
proof -
  let ?s = "fst (run ext deployed txs)" and ?ids = "submitted_ids (snd (run ext deployed txs))"
  have c: "map unat ?ids = [1..<Suc (unat (sampleCount ?s))]"
    using counted_run [of ext txs] by (simp add: counted_def)
  then have "length (map unat ?ids) = length [1..<Suc (unat (sampleCount ?s))]" by simp
  then have l: "length ?ids = unat (sampleCount ?s)" by simp
  have n: "unat (sampleCount ?s) = min (length (filter is_submit (map snd txs))) max_uint256"
    using sampleCount_run [of ext deployed txs] by (simp add: deployed_def)
  from c have "distinct (map unat ?ids)" by simp
  then have d: "distinct ?ids" by (simp add: distinct_map)
  from c l have "map unat ?ids = [1..<Suc (length ?ids)]" by simp
  then have m: "i \<in> set ?ids \<longleftrightarrow> 1 \<le> unat i \<and> unat i \<le> length ?ids"
    by (rule assigned_iff)
  have "id_sample (encryptedSamples ?s i) = (if i \<in> set ?ids then i else 0)"
    using registered_run [of ext txs] by (simp add: registered_def)
  then have r: "id_sample (encryptedSamples ?s i) =
      (if 1 \<le> unat i \<and> unat i \<le> length ?ids then i else 0)"
    by (simp only: m)
  have o: "(sampleCount s = - 1 \<and> submitEncryptedSample s ctx a b c = Inl Panic_overflow)
      \<or> (\<exists>sa. submitEncryptedSample s ctx a b c =
                 Inr (sa, [SampleSubmitted (sampleCount s + 1) (msg_sender ctx)
                             (block_timestamp ctx)])
             \<and> sampleCount sa = sampleCount s + 1
             \<and> id_sample (encryptedSamples sa (sampleCount s + 1)) = sampleCount s + 1)"
    by (simp add: submitEncryptedSample_def Let_def)
  from c l n d r o show ?thesis by simp
qed

theorem sample_ids_consecutive_from_one_witness:
  "submitted_ids (snd (run example_externals deployed example_requested)) = [1]
   \<and> sampleCount (fst (run example_externals deployed example_requested)) = 1
   \<and> id_sample (encryptedSamples (fst (run example_externals deployed example_requested)) 1) = 1
   \<and> id_sample (encryptedSamples (fst (run example_externals deployed example_requested)) 2) = 0"
proof -
  let ?s = "fst (run example_externals deployed example_requested)"
  let ?ids = "submitted_ids (snd (run example_externals deployed example_requested))"
  have e: "?ids = [1]"
    by (simp add: example_requested_run)
  have k: "sampleCount ?s = 1"
    by (simp add: example_defs contract_defs)
  from sample_ids_consecutive_from_one [where ext = example_externals
      and txs = example_requested and i = 1,
      THEN conjunct2, THEN conjunct2, THEN conjunct2, THEN conjunct2, THEN conjunct1]
  have "id_sample (encryptedSamples ?s 1) =
      (if 1 \<le> unat (1 :: uint256) \<and> unat (1 :: uint256) \<le> length ?ids then 1 else 0)" .
  then have a: "id_sample (encryptedSamples ?s 1) = 1"
    by (simp add: e)
  from sample_ids_consecutive_from_one [where ext = example_externals
      and txs = example_requested and i = 2,
      THEN conjunct2, THEN conjunct2, THEN conjunct2, THEN conjunct2, THEN conjunct1]
  have "id_sample (encryptedSamples ?s 2) =
      (if 1 \<le> unat (2 :: uint256) \<and> unat (2 :: uint256) \<le> length ?ids then 2 else 0)" .
  then have b: "id_sample (encryptedSamples ?s 2) = 0"
    by (simp add: e)
  from e k a b show ?thesis by simp
qed

subsection \<open>Requesting a transformation\<close>

text \<open>
  C5. In a state reached from the deployed contract, with \<open>evs\<close> the events emitted on the
  way: \<^verbatim>\<open>requestTransformation\<close> reverts with "Invalid sample" when the id is 0 or was never
  assigned by a submission; it reverts with "Already revealed" when the sample exists and its
  transformation is revealed; otherwise it stores the request id returned by the oracle with
  the sample id in the ledger, changes nothing else, and emits
  \<^verbatim>\<open>TransformationRequested(sampleId, reqId)\<close>.
\<close>

theorem requestTransformation_outcomes:
  assumes "run ext deployed txs = (s, evs)"
  shows "requestTransformation s ctx sampleId =
     (if sampleId = 0 \<or> sampleId \<notin> set (submitted_ids evs) then Inl (Revert ''Invalid sample'')
      else if revealed (transformations s sampleId) then Inl (Revert ''Already revealed'')
      else Inr (s\<lparr>requestToSampleId := (requestToSampleId s)(requestDecryption ctx := sampleId)\<rparr>,
                [TransformationRequested sampleId (requestDecryption ctx)]))"
proof -
  from registered_run [of ext txs] assms have "registered s evs" by simp
  then have "id_sample (encryptedSamples s sampleId) =
      (if sampleId \<in> set (submitted_ids evs) then sampleId else 0)"
    by (simp add: registered_def)
  then show ?thesis
    by (simp add: requestTransformation_def onlySubmitter_def Let_def)
qed

theorem requestTransformation_outcomes_witness:
  "requestTransformation (fst (run example_externals deployed example_requested))
      (example_ctx 12 8) 0 = Inl (Revert ''Invalid sample'')
   \<and> requestTransformation (fst (run example_externals deployed example_requested))
      (example_ctx 12 8) 2 = Inl (Revert ''Invalid sample'')
   \<and> requestTransformation (fst (run example_externals deployed example_revealed))
      (example_ctx 12 8) 1 = Inl (Revert ''Already revealed'')
   \<and> requestTransformation (fst (run example_externals deployed example_requested))
      (example_ctx 12 8) 1 =
      Inr ((fst (run example_externals deployed example_requested))
             \<lparr>requestToSampleId :=
                (requestToSampleId (fst (run example_externals deployed example_requested)))
                  (8 := 1)\<rparr>,
           [TransformationRequested 1 8])"
proof -
  let ?q = "run example_externals deployed example_requested"
  let ?r = "run example_externals deployed example_revealed"
  have q: "?q = (fst ?q, snd ?q)" and r: "?r = (fst ?r, snd ?r)" by simp_all
  have c: "requestDecryption (example_ctx 12 8) = 8" by (simp add: example_ctx_def)
  from requestTransformation_outcomes [OF q, of "example_ctx 12 8" 0]
    requestTransformation_outcomes [OF q, of "example_ctx 12 8" 2]
    requestTransformation_outcomes [OF r, of "example_ctx 12 8" 1]
    requestTransformation_outcomes [OF q, of "example_ctx 12 8" 1]
  show ?thesis
    by (simp add: example_requested_run example_revealed_run example_requested_unrevealed
        example_revealed_transformation c)
qed

subsection \<open>Reads\<close>

text \<open>
  C7, as stated, fails: after one submission and one request, \<^verbatim>\<open>getTransformation(0)\<close> and
  \<^verbatim>\<open>getEncryptedSampleInfo(0)\<close> do not revert; each returns a tuple of zero values.
\<close>

theorem getters_reject_id_zero_counterexample:
  "getTransformation (fst (run example_externals deployed example_requested)) 0 =
     Inr ([], [], False)
   \<and> getEncryptedSampleInfo (fst (run example_externals deployed example_requested)) 0 =
     Inr (0, 0, 0, False)"
  by (simp add: getTransformation_def getEncryptedSampleInfo_def example_defs contract_defs)

text \<open>
  C7, amended. The reads have no \<^verbatim>\<open>require\<close> and never reject: for every storage and every
  id, \<^verbatim>\<open>getTransformation\<close> and \<^verbatim>\<open>getEncryptedSampleInfo\<close> return a tuple. In every state
  reached from the deployed contract, \<^verbatim>\<open>getTransformation(0)\<close> returns the zero-valued record
  \<^verbatim>\<open>("", "", false)\<close> and \<^verbatim>\<open>getEncryptedSampleInfo(0)\<close> returns \<^verbatim>\<open>(0, 0, address(0), false)\<close>,
  since slot 0 is never written. The id field that \<^verbatim>\<open>getEncryptedSampleInfo(id)\<close> returns is
  \<open>id\<close> when that id was assigned by a submission and 0 otherwise, and 0 is never assigned:
  a returned id field of 0 is the sign of "no such sample".
\<close>

theorem getters_never_reject:
  "(\<exists>r. getTransformation s sampleId = Inr r)
   \<and> (\<exists>r. getEncryptedSampleInfo s sampleId = Inr r)
   \<and> getTransformation (fst (run ext deployed txs)) 0 = Inr ([], [], False)
   \<and> getEncryptedSampleInfo (fst (run ext deployed txs)) 0 = Inr (0, 0, 0, False)
   \<and> (\<exists>ts who rev. getEncryptedSampleInfo (fst (run ext deployed txs)) sampleId =
        Inr (if sampleId \<in> set (submitted_ids (snd (run ext deployed txs))) then sampleId else 0,
             ts, who, rev))
   \<and> 0 \<notin> set (submitted_ids (snd (run ext deployed txs)))"
  using registered_run [of ext txs]
  by (simp add: registered_def getTransformation_def getEncryptedSampleInfo_def
      zero_sample_def zero_transformation_def Let_def)

theorem getters_never_reject_witness:
  "getEncryptedSampleInfo (fst (run example_externals deployed example_requested)) 1 =
     Inr (1, 100, 10, False)
   \<and> getEncryptedSampleInfo (fst (run example_externals deployed example_requested)) 2 =
     Inr (0, 0, 0, False)
   \<and> getTransformation (fst (run example_externals deployed example_revealed)) 1 =
     Inr (''sphere'', ''soft'', True)
   \<and> getTransformation (fst (run example_externals deployed example_revealed)) 0 =
     Inr ([], [], False)"
proof -
  have a: "getEncryptedSampleInfo (fst (run example_externals deployed example_requested)) 1 =
     Inr (1, 100, 10, False)"
    and b: "getEncryptedSampleInfo (fst (run example_externals deployed example_requested)) 2 =
     Inr (0, 0, 0, False)"
    by (simp_all add: getEncryptedSampleInfo_def example_defs contract_defs)
  have g: "getTransformation (fst (run example_externals deployed example_revealed)) 1 =
     Inr (''sphere'', ''soft'', True)"
    by (simp add: getTransformation_def example_revealed_transformation)
  from getters_never_reject [of _ _ example_externals example_revealed] a b g
  show ?thesis by simp
qed

subsection \<open>The request ledger\<close>

lemma example_metric_ledger:
  "requestToSampleId (fst (run example_externals deployed example_metric)) 9 = 1004"
  by (simp add: example_defs contract_defs)

lemma Transformation_overwrite:
  "t\<lparr>shapeDescriptor := a, textureDescriptor := b, revealed := c\<rparr> =
     \<lparr>shapeDescriptor = a, textureDescriptor = b, revealed = c\<rparr>"
  by (cases t) simp

text \<open>
  C6, as stated, fails: request id 7 was recorded by \<^verbatim>\<open>requestTransformation\<close> for sample 1,
  and \<^verbatim>\<open>handleMetricDecryption\<close> accepts it and reports sample id 1 as a metric pseudo-id.
\<close>

theorem ledger_kinds_distinguished_counterexample:
  "snd (run example_externals deployed example_requested) =
     [SampleSubmitted 1 10 100, TransformationRequested 1 7]
   \<and> handleMetricDecryption example_externals
       (fst (run example_externals deployed example_requested)) 7 [12] [1] =
     Inr (fst (run example_externals deployed example_requested), [MetricDecrypted 1 12])"
  by (simp add: example_requested_run handleMetricDecryption_def example_requested_ledger)
    (simp add: example_externals_def)

text \<open>
  C6, amended. The ledger holds one bare \<^verbatim>\<open>uint256\<close> for a request id and no mark of its kind.
  In a state reached from the deployed contract, a request id recorded by
  \<^verbatim>\<open>requestTransformation\<close> for a sample is accepted by \<^verbatim>\<open>handleMetricDecryption\<close>, which emits
  \<^verbatim>\<open>MetricDecrypted(sampleId, v)\<close> when the signatures check and the payload decodes to \<open>v\<close>;
  and a request id recorded by \<^verbatim>\<open>requestMetricDecryption\<close> for a key is accepted by
  \<^verbatim>\<open>handleDecryption\<close>, which treats the key's hash (when it is not 0 and that slot is not
  revealed) as a sample id and writes a revealed transformation there.
\<close>

theorem ledger_has_no_kind_tag:
  assumes "run ext deployed txs = (s, evs)"
  shows "(requestTransformation s ctx sampleId = Inr (sa, evsa) \<longrightarrow>
          checkSignatures ext (requestDecryption ctx) cleartexts proofData \<longrightarrow>
          abi_decode_uint32 ext cleartexts = Some v \<longrightarrow>
          handleMetricDecryption ext sa (requestDecryption ctx) cleartexts proofData =
            Inr (sa, [MetricDecrypted sampleId v]))
       \<and> (requestMetricDecryption ext s ctx key = Inr (sb, evsb) \<longrightarrow>
          keccak256 ext key \<noteq> 0 \<longrightarrow>
          \<not> revealed (transformations s (keccak256 ext key)) \<longrightarrow>
          checkSignatures ext (requestDecryption ctx) cleartexts proofData \<longrightarrow>
          abi_decode_strings ext cleartexts = Some results \<longrightarrow>
          handleDecryption ext sb (requestDecryption ctx) cleartexts proofData =
            Inr (sb\<lparr>transformations := (transformations sb)(keccak256 ext key :=
                      \<lparr>shapeDescriptor = (if length results > 0 then results ! 0 else []),
                       textureDescriptor = (if length results > 1 then results ! 1 else []),
                       revealed = True\<rparr>)\<rparr>,
                 [TransformationRevealed (keccak256 ext key)]))"
proof -
  from registered_run [of ext txs] assms have reg: "registered s evs" by simp
  have a: "handleMetricDecryption ext sa (requestDecryption ctx) cleartexts proofData =
            Inr (sa, [MetricDecrypted sampleId v])"
    if req: "requestTransformation s ctx sampleId = Inr (sa, evsa)"
      and sig: "checkSignatures ext (requestDecryption ctx) cleartexts proofData"
      and dec: "abi_decode_uint32 ext cleartexts = Some v"
  proof -
    from req have "id_sample (encryptedSamples s sampleId) \<noteq> 0"
      by (auto simp: requestTransformation_def onlySubmitter_def Let_def split: if_splits)
    with reg have nz: "sampleId \<noteq> 0"
      by (auto simp: registered_def split: if_splits)
    from req have "requestToSampleId sa (requestDecryption ctx) = sampleId"
      by (auto simp: requestTransformation_def onlySubmitter_def Let_def split: if_splits)
    with nz sig dec show ?thesis
      by (simp add: handleMetricDecryption_def)
  qed
  have b: "handleDecryption ext sb (requestDecryption ctx) cleartexts proofData =
            Inr (sb\<lparr>transformations := (transformations sb)(keccak256 ext key :=
                      \<lparr>shapeDescriptor = (if length results > 0 then results ! 0 else []),
                       textureDescriptor = (if length results > 1 then results ! 1 else []),
                       revealed = True\<rparr>)\<rparr>,
                 [TransformationRevealed (keccak256 ext key)])"
    if req: "requestMetricDecryption ext s ctx key = Inr (sb, evsb)"
      and nz: "keccak256 ext key \<noteq> 0"
      and unrev: "\<not> revealed (transformations s (keccak256 ext key))"
      and sig: "checkSignatures ext (requestDecryption ctx) cleartexts proofData"
      and dec: "abi_decode_strings ext cleartexts = Some results"
  proof -
    from req have l: "requestToSampleId sb (requestDecryption ctx) = keccak256 ext key"
      and t: "transformations sb = transformations s"
      by (auto simp: requestMetricDecryption_def Let_def split: if_splits)
    with nz unrev sig dec show ?thesis
      by (simp add: handleDecryption_def Let_def Transformation_overwrite)
  qed
  from a b show ?thesis by blast
qed

theorem ledger_has_no_kind_tag_witness:
  "requestTransformation (fst (run example_externals deployed example_submitted))
      (example_ctx 10 7) 1 =
     Inr (fst (run example_externals deployed example_requested), [TransformationRequested 1 7])
   \<and> handleMetricDecryption example_externals
       (fst (run example_externals deployed example_requested)) 7 [12] [1] =
     Inr (fst (run example_externals deployed example_requested), [MetricDecrypted 1 12])
   \<and> requestMetricDecryption example_externals
       (fst (run example_externals deployed example_stored)) (example_ctx 10 9) ''heat'' =
     Inr (fst (run example_externals deployed example_metric), [])
   \<and> handleDecryption example_externals
       (fst (run example_externals deployed example_metric)) 9 [12] [1] =
     Inr ((fst (run example_externals deployed example_metric))
            \<lparr>transformations :=
               (transformations (fst (run example_externals deployed example_metric)))
                 (1004 := \<lparr>shapeDescriptor = ''sphere'', textureDescriptor = ''soft'',
                           revealed = True\<rparr>)\<rparr>,
          [TransformationRevealed 1004])"
proof -
  let ?p = "run example_externals deployed example_submitted"
  let ?q = "run example_externals deployed example_requested"
  let ?m = "run example_externals deployed example_stored"
  let ?n = "run example_externals deployed example_metric"
  have p: "?p = (fst ?p, snd ?p)" and m: "?m = (fst ?m, snd ?m)" by simp_all
  have r1: "requestTransformation (fst ?p) (example_ctx 10 7) 1 =
      Inr (fst ?q, [TransformationRequested 1 7])"
    by (simp add: example_defs contract_defs)
  have r2: "requestMetricDecryption example_externals (fst ?m) (example_ctx 10 9) ''heat'' =
      Inr (fst ?n, [])"
    by (simp add: example_defs contract_defs)
  have c: "requestDecryption (example_ctx 10 7) = 7" "requestDecryption (example_ctx 10 9) = 9"
    by (simp_all add: example_ctx_def)
  have e: "checkSignatures example_externals 7 [12] [1]"
    "checkSignatures example_externals 9 [12] [1]"
    "abi_decode_uint32 example_externals [12] = Some 12"
    "abi_decode_strings example_externals [12] = Some [''sphere'', ''soft'']"
    "keccak256 example_externals ''heat'' = 1004"
    by (simp_all add: example_externals_def)
  have u: "\<not> revealed (transformations (fst ?m) 1004)"
    by (simp add: example_defs contract_defs)
  from ledger_has_no_kind_tag [OF p, where ctx = "example_ctx 10 7" and sampleId = 1
      and sa = "fst ?q" and evsa = "[TransformationRequested 1 7]"
      and cleartexts = "[12]" and proofData = "[1]" and v = 12]
    ledger_has_no_kind_tag [OF m, where ctx = "example_ctx 10 9" and key = "''heat''"
      and sb = "fst ?n" and evsb = "[]" and cleartexts = "[12]" and proofData = "[1]"
      and results = "[''sphere'', ''soft'']"]
    r1 r2 c e u
  show ?thesis by simp
qed

text \<open>
  C10. No transaction removes or changes the ledger entry of a request id, except a request
  call to which the oracle hands out that same id again. Nothing is consumed by a callback:
  after \<^verbatim>\<open>handleMetricDecryption\<close> has succeeded for a request id, the storage is as before,
  the same call succeeds again with the same event, and so does a call with any other payload
  whose signatures check and which decodes.
\<close>

theorem ledger_entries_persist:
  "(requestToSampleId (fst (transact ext s (ctx, c))) requestId = requestToSampleId s requestId
      \<or> (issues_request c \<and> requestDecryption ctx = requestId))
   \<and> (handleMetricDecryption ext s requestId cleartexts proofData = Inr (sa, evs) \<longrightarrow>
        sa = s
        \<and> handleMetricDecryption ext sa requestId cleartexts proofData = Inr (sa, evs)
        \<and> (checkSignatures ext requestId cleartextsb proofDatab \<longrightarrow>
             abi_decode_uint32 ext cleartextsb = Some v \<longrightarrow>
             handleMetricDecryption ext sa requestId cleartextsb proofDatab =
               Inr (sa, [MetricDecrypted (requestToSampleId s requestId) v])))"
proof -
  have 1: "requestToSampleId (fst (transact ext s (ctx, c))) requestId =
      requestToSampleId s requestId
      \<or> (issues_request c \<and> requestDecryption ctx = requestId)"
    by (cases c) (auto simp: contract_defs split: option.splits)
  have 2: "sa = s" if "handleMetricDecryption ext s requestId cleartexts proofData = Inr (sa, evs)"
    using that by (auto simp: handleMetricDecryption_def Let_def split: if_splits option.splits)
  have 3: "handleMetricDecryption ext s requestId cleartextsb proofDatab =
               Inr (s, [MetricDecrypted (requestToSampleId s requestId) v])"
    if "handleMetricDecryption ext s requestId cleartexts proofData = Inr (sa, evs)"
      and "checkSignatures ext requestId cleartextsb proofDatab"
      and "abi_decode_uint32 ext cleartextsb = Some v"
    using that by (auto simp: handleMetricDecryption_def Let_def split: if_splits option.splits)
  from 1 2 3 show ?thesis by blast
qed

theorem ledger_entries_persist_witness:
  "handleMetricDecryption example_externals (fst (run example_externals deployed example_metric))
      9 [12] [1] =
     Inr (fst (run example_externals deployed example_metric), [MetricDecrypted 1004 12])
   \<and> checkSignatures example_externals 9 [13] [1]
   \<and> abi_decode_uint32 example_externals [13] = Some 13
   \<and> handleMetricDecryption example_externals (fst (run example_externals deployed example_metric))
      9 [13] [1] =
     Inr (fst (run example_externals deployed example_metric), [MetricDecrypted 1004 13])"
proof -
  let ?s = "fst (run example_externals deployed example_metric)"
  have c: "checkSignatures example_externals 9 [13] [1]"
    and d: "abi_decode_uint32 example_externals [13] = Some 13"
    by (simp_all add: example_externals_def)
  have h: "handleMetricDecryption example_externals ?s 9 [12] [1] =
      Inr (?s, [MetricDecrypted 1004 12])"
    by (simp add: handleMetricDecryption_def example_metric_ledger)
      (simp add: example_externals_def)
  from ledger_entries_persist [where ext = example_externals and s = ?s
      and ctx = "example_ctx 10 0" and c = "HandleMetricDecryption 9 [12] [1]"
      and requestId = 9 and cleartexts = "[12]" and proofData = "[1]" and sa = ?s
      and evs = "[MetricDecrypted 1004 12]" and cleartextsb = "[13]" and proofDatab = "[1]"
      and v = 13]
    h c d example_metric_ledger
  show ?thesis by simp
qed

subsection \<open>Caller identity\<close>

text \<open>
  C9. No call checks who the caller is. \<^verbatim>\<open>requestTransformation\<close> gives the same result
  (the same error, or the same new storage and event) for any two callers, the modifier
  \<^verbatim>\<open>onlySubmitter\<close> lets its body run for every caller, and so does every call other than a
  submission. A submission by caller \<open>a\<close> gives the result of the same submission by caller
  \<open>b\<close> with \<open>a\<close> in place of \<open>b\<close> in the \<^verbatim>\<open>submitter\<close> field of the new sample, and in the
  \<^verbatim>\<open>SampleSubmitted\<close> event that reports that field.
\<close>

theorem caller_identity_not_enforced:
  "requestTransformation s (ctx\<lparr>msg_sender := a\<rparr>) sampleId =
     requestTransformation s (ctx\<lparr>msg_sender := b\<rparr>) sampleId
   \<and> onlySubmitter a sampleId body = body
   \<and> (is_submit c \<or>
        dispatch ext s (ctx\<lparr>msg_sender := a\<rparr>) c = dispatch ext s (ctx\<lparr>msg_sender := b\<rparr>) c)
   \<and> submitEncryptedSample s (ctx\<lparr>msg_sender := a\<rparr>) x y z =
        map_sum id (with_submitter a) (submitEncryptedSample s (ctx\<lparr>msg_sender := b\<rparr>) x y z)"
proof -
  have 1: "requestTransformation s (ctx\<lparr>msg_sender := a\<rparr>) sampleId =
     requestTransformation s (ctx\<lparr>msg_sender := b\<rparr>) sampleId"
    by (simp add: requestTransformation_def onlySubmitter_def)
  have 2: "onlySubmitter a sampleId body = body"
    by (simp add: onlySubmitter_def)
  have 3: "is_submit c \<or>
        dispatch ext s (ctx\<lparr>msg_sender := a\<rparr>) c = dispatch ext s (ctx\<lparr>msg_sender := b\<rparr>) c"
    by (cases c) (simp_all add: requestTransformation_def onlySubmitter_def
        requestMetricDecryption_def)
  have 4: "submitEncryptedSample s (ctx\<lparr>msg_sender := a\<rparr>) x y z =
        map_sum id (with_submitter a) (submitEncryptedSample s (ctx\<lparr>msg_sender := b\<rparr>) x y z)"
    by (simp add: submitEncryptedSample_def with_submitter_def Let_def)
  from 1 2 3 4 show ?thesis by blast
qed

subsection \<open>Metric accumulation\<close>

text \<open>
  The running sum after a sequence of stores: it stays the zero handle as long as only zero
  handles are stored, and is otherwise the encryption of the sum of the plaintexts.
\<close>

lemma accumulate_metric:
  "encryptedMetric (accumulate s key vs) key =
     (if \<forall>v \<in> set (encryptedMetric s key # vs). v = Uninitialized then Uninitialized
      else Enc (FHE_plaintext (encryptedMetric s key) + sum_list (map FHE_plaintext vs)))"
proof (induction vs arbitrary: s)
  case Nil
  then show ?case by (cases "encryptedMetric s key") simp_all
next
  case (Cons v vs)
  show ?case
    by (cases "encryptedMetric s key"; cases v)
      (simp_all add: Cons.IH storeEncryptedMetric_def FHE_add_def add.assoc)
qed

lemma unat_sum_list_u32:
  "unat (sum_list (xs :: uint32 list)) = sum_list (map unat xs) mod 2 ^ 32"
proof (induction xs)
  case Nil
  then show ?case by simp
next
  case (Cons x xs)
  have "unat (x + sum_list xs) = (unat x + unat (sum_list xs)) mod 2 ^ 32"
    by (simp add: unat_word_ariths)
  also have "\<dots> = (unat x + sum_list (map unat xs) mod 2 ^ 32) mod 2 ^ 32"
    by (simp only: Cons.IH)
  also have "\<dots> = (unat x + sum_list (map unat xs)) mod 2 ^ 32"
    by (rule mod_add_right_eq)
  finally show ?case by simp
qed

text \<open>
  C8, as stated, fails where the sum overflows: storing encryptions of 4294967295 and of 1
  leaves an encryption of 0 as the running sum, while the sum of the two numbers is
  4294967296.
\<close>

theorem metric_sum_is_exact_counterexample:
  "encryptedMetric (accumulate deployed ''heat'' [Enc 4294967295, Enc 1]) ''heat'' = Enc 0
   \<and> unat (FHE_plaintext
        (encryptedMetric (accumulate deployed ''heat'' [Enc 4294967295, Enc 1]) ''heat'')) = 0
   \<and> unat (FHE_plaintext (Enc 4294967295)) + unat (FHE_plaintext (Enc 1)) = 4294967296"
  by (simp add: storeEncryptedMetric_def FHE_add_def deployed_def)

text \<open>
  C8, amended. Storing the same collection of encrypted values for a key in two different
  orders gives the same running-sum ciphertext, and its plaintext is the plaintext of the sum
  held before (0 for a key not seen yet) plus the sum of the stored plaintexts, in the
  \<^verbatim>\<open>uint32\<close> arithmetic of \<^verbatim>\<open>euint32\<close>: as a number, the sum of the plaintexts modulo
  \<open>2 ^ 32\<close>.
\<close>

theorem metric_accumulation_order_independent:
  assumes "mset vs = mset ws"
  shows "encryptedMetric (accumulate s key vs) key = encryptedMetric (accumulate s key ws) key
       \<and> FHE_plaintext (encryptedMetric (accumulate s key vs) key) =
           FHE_plaintext (encryptedMetric s key) + sum_list (map FHE_plaintext vs)
       \<and> unat (FHE_plaintext (encryptedMetric (accumulate s key vs) key)) =
           (unat (FHE_plaintext (encryptedMetric s key))
            + sum_list (map (\<lambda>v. unat (FHE_plaintext v)) vs)) mod 2 ^ 32"
proof -
  from assms have st: "set vs = set ws" by (rule mset_eq_setD)
  from assms have "mset (map FHE_plaintext vs) = mset (map FHE_plaintext ws)" by simp
  then have "sum_mset (mset (map FHE_plaintext vs)) = sum_mset (mset (map FHE_plaintext ws))"
    by simp
  then have sm: "sum_list (map FHE_plaintext vs) = sum_list (map FHE_plaintext ws)"
    by (simp only: sum_mset_sum_list)
  have z: "sum_list (map FHE_plaintext vs) = 0" if "\<forall>v \<in> set vs. v = Uninitialized"
    using that by (induction vs) simp_all
  have eq: "encryptedMetric (accumulate s key vs) key = encryptedMetric (accumulate s key ws) key"
    using st sm by (simp add: accumulate_metric)
  have pl: "FHE_plaintext (encryptedMetric (accumulate s key vs) key) =
      FHE_plaintext (encryptedMetric s key) + sum_list (map FHE_plaintext vs)"
    using z by (simp add: accumulate_metric)
  have "unat (FHE_plaintext (encryptedMetric s key) + sum_list (map FHE_plaintext vs)) =
      (unat (FHE_plaintext (encryptedMetric s key))
       + sum_list (map (\<lambda>v. unat (FHE_plaintext v)) vs)) mod 2 ^ 32"
    using unat_sum_list_u32 [of "FHE_plaintext (encryptedMetric s key) # map FHE_plaintext vs"]
    by (simp add: comp_def)
  with eq pl show ?thesis by simp
qed

theorem metric_accumulation_order_independent_witness:
  "mset [Enc 5, Enc 7, Enc 9] = mset [Enc 9, Enc 5, Enc 7]
   \<and> encryptedMetric (accumulate deployed ''heat'' [Enc 5, Enc 7, Enc 9]) ''heat'' = Enc 21
   \<and> encryptedMetric (accumulate deployed ''heat'' [Enc 9, Enc 5, Enc 7]) ''heat'' = Enc 21
   \<and> FHE_plaintext (encryptedMetric (accumulate deployed ''heat'' [Enc 5, Enc 7, Enc 9]) ''heat'')
       = 5 + 7 + 9"
proof -
  have h: "mset [Enc 5, Enc 7, Enc 9] = mset [Enc 9, Enc 5, Enc 7]" by simp
  have v: "encryptedMetric (accumulate deployed ''heat'' [Enc 5, Enc 7, Enc 9]) ''heat'' = Enc 21"
    by (simp add: storeEncryptedMetric_def FHE_add_def deployed_def)
  from metric_accumulation_order_independent [OF h, of deployed "''heat''"] h v
  show ?thesis by simp
qed

end
